theory Spec2Isabelle
  imports Complex_Main
begin

section \<open>Data model\<close>

text \<open>
  The development embeds \<^verbatim>\<open>src/chemopt/zmat_optimisation.py\<close>. Python names that begin
  with an underscore lose it (\<^verbatim>\<open>_is_converged\<close> is \<open>is_converged\<close>). Floating-point
  numbers are modelled as real numbers: the properties below concern the order of the
  tests, the comparisons and the shapes, not rounding.
\<close>

datatype py_error =
    ValueError
  | TypeError
  | NameError
  | IndexError
  | KeyError
  | FileNotFoundError
  | OSError

text \<open>
  A two-dimensional \<^verbatim>\<open>numpy.ndarray\<close>: its shape and its entries. Only the entries
  inside the shape are meaningful.
\<close>

record array2 =
  rows :: nat
  cols :: nat
  at2 :: "nat \<Rightarrow> nat \<Rightarrow> real"

text \<open>The four-dimensional array returned by \<^verbatim>\<open>get_grad_cartesian\<close>.\<close>

record array4 =
  d0 :: nat
  d1 :: nat
  d2 :: nat
  d3 :: nat
  at4 :: "nat \<Rightarrow> nat \<Rightarrow> nat \<Rightarrow> nat \<Rightarrow> real"

definition entries2 :: "array2 \<Rightarrow> real list" where
  "entries2 A = concat (map (\<lambda>i. map (at2 A i) [0..<cols A]) [0..<rows A])"

text \<open>\<^verbatim>\<open>abs(A)\<close> on an array is elementwise.\<close>

definition array_abs :: "array2 \<Rightarrow> array2" where
  "array_abs A = A\<lparr>at2 := \<lambda>i j. \<bar>at2 A i j\<bar>\<rparr>"

text \<open>\<^verbatim>\<open>A.max()\<close> raises \<^verbatim>\<open>ValueError\<close> on an array without entries.\<close>

definition array_max :: "array2 \<Rightarrow> py_error + real" where
  "array_max A =
     (if entries2 A = [] then Inl ValueError else Inr (Max (set (entries2 A))))"

section \<open>Convergence test\<close>

text \<open>
  \<^verbatim>\<open>_is_converged(energies, grad_energy_X, etol, gtol)\<close>. The gradient is \<open>None\<close> when
  the caller passes Python's \<^verbatim>\<open>None\<close>; \<^verbatim>\<open>abs(None)\<close> raises \<^verbatim>\<open>TypeError\<close>.
  \<^verbatim>\<open>and\<close> evaluates its right operand only when the left one is true.
\<close>

definition is_converged ::
  "real list \<Rightarrow> array2 option \<Rightarrow> real \<Rightarrow> real \<Rightarrow> py_error + bool" where
  "is_converged energies grad_energy_X etol gtol =
     (if length energies = 0 then Inr False
      else if length energies = 1 then Inr False
      else if \<bar>energies ! (length energies - 1) - energies ! (length energies - 2)\<bar> < etol
        then (case grad_energy_X of
                None \<Rightarrow> Inl TypeError
              | Some g \<Rightarrow>
                  (case array_max (array_abs g) of
                     Inl e \<Rightarrow> Inl e
                   | Inr m \<Rightarrow> Inr (m < gtol)))
        else Inr False)"

text \<open>The call with the default tolerances \<^verbatim>\<open>etol=1e-8, gtol=1e-5\<close>.\<close>

definition is_converged_default :: "real list \<Rightarrow> array2 option \<Rightarrow> py_error + bool" where
  "is_converged_default energies grad_energy_X =
     is_converged energies grad_energy_X (1 / 10 ^ 8) (1 / 10 ^ 5)"

section \<open>Step generator\<close>

text \<open>
  \<^verbatim>\<open>get_next_step(grads_energy_C)\<close>. The deque is a list, oldest entry first. The name
  \<^verbatim>\<open>next_step\<close> that the function returns is not bound anywhere in the module: it is
  looked up among the module's globals when the \<^verbatim>\<open>return\<close> runs, so the lookup is a
  parameter, \<open>None\<close> when the name is unbound (\<^verbatim>\<open>NameError\<close>).
\<close>

definition get_next_step :: "'s option \<Rightarrow> array2 list \<Rightarrow> py_error + 's" where
  "get_next_step next_step grads_energy_C =
     (if length grads_energy_C \<noteq> 2 then Inl ValueError
      else (case next_step of None \<Rightarrow> Inl NameError | Some s \<Rightarrow> Inr s))"

section \<open>Coordinate transform and evaluation\<close>

text \<open>\<^verbatim>\<open>A.T\<close> and \<^verbatim>\<open>A / c\<close> on a two-dimensional array.\<close>

definition transpose2 :: "array2 \<Rightarrow> array2" where
  "transpose2 A = \<lparr>rows = cols A, cols = rows A, at2 = \<lambda>i j. at2 A j i\<rparr>"

definition array_div :: "array2 \<Rightarrow> real \<Rightarrow> array2" where
  "array_div A c = A\<lparr>at2 := \<lambda>i j. at2 A i j / c\<rparr>"

text \<open>
  numpy broadcasting of one axis: equal lengths, or one of them 1; anything else is a
  \<^verbatim>\<open>ValueError\<close>. An axis of length 1 is read at index 0.
\<close>

definition broadcast_dim :: "nat \<Rightarrow> nat \<Rightarrow> py_error + nat" where
  "broadcast_dim m n =
     (if m = n then Inr n else if m = 1 then Inr n else if n = 1 then Inr m
      else Inl ValueError)"

definition bidx :: "nat \<Rightarrow> nat \<Rightarrow> nat" where
  "bidx len i = (if len = 1 then 0 else i)"

text \<open>
  \<^verbatim>\<open>np.sum(grad_energy_X.T[:, :, None, None] * grad_X, axis=(0, 1))\<close>: the product
  broadcasts the transposed gradient over the last two axes of \<^verbatim>\<open>grad_X\<close>, and the
  first two axes are summed away. The result has the shape of the last two axes.
\<close>

definition contract_gradient :: "array2 \<Rightarrow> array4 \<Rightarrow> py_error + array2" where
  "contract_gradient grad_energy_X grad_X =
     (let A = transpose2 grad_energy_X in
      case broadcast_dim (rows A) (d0 grad_X) of
        Inl e \<Rightarrow> Inl e
      | Inr n0 \<Rightarrow>
          (case broadcast_dim (cols A) (d1 grad_X) of
             Inl e \<Rightarrow> Inl e
           | Inr n1 \<Rightarrow>
               Inr \<lparr>rows = d2 grad_X, cols = d3 grad_X,
                    at2 = \<lambda>j k. sum_list (map (\<lambda>c. sum_list (map (\<lambda>a.
                            at2 A (bidx (rows A) c) (bidx (cols A) a)
                            * at4 grad_X (bidx (d0 grad_X) c) (bidx (d1 grad_X) a) j k)
                          [0..<n1])) [0..<n0])\<rparr>))"

text \<open>\<^verbatim>\<open>grad_energy_C[i, i:] = 0.\<close>: row \<open>i\<close>, the columns from \<open>i\<close> to the last one.\<close>

definition zero_row_from :: "nat \<Rightarrow> array2 \<Rightarrow> array2" where
  "zero_row_from i C =
     C\<lparr>at2 := \<lambda>r k. if r = i \<and> i \<le> k \<and> k < cols C then 0 else at2 C r k\<rparr>"

text \<open>\<^verbatim>\<open>for i in range(min(3, grad_energy_C.shape[0])): grad_energy_C[i, i:] = 0.\<close>\<close>

definition gauge_fix :: "array2 \<Rightarrow> array2" where
  "gauge_fix C = fold zero_row_from [0..<min 3 (rows C)] C"

text \<open>The positions that the loop of \<open>gauge_fix\<close> assigns, for an array of \<open>n\<close> rows and \<open>m\<close> columns.\<close>

definition gauge_positions :: "nat \<Rightarrow> nat \<Rightarrow> (nat \<times> nat) list" where
  "gauge_positions n m = concat (map (\<lambda>i. map (Pair i) [i..<m]) [0..<min 3 n])"

text \<open>
  A Z-matrix: the rows of its frame, one per atom, each with the atom's label (the
  frame's index) and its bond, angle and dihedral values; and the \<^verbatim>\<open>energy\<close> entry of
  its metadata. The other columns of the geometry library's frame are never read or
  written by this module.
\<close>

record zrow =
  bond :: real
  angle :: real
  dihedral :: real

record zmat =
  frame :: "(nat \<times> zrow) list"
  energy_meta :: "real option"

definition index :: "zmat \<Rightarrow> nat list" where
  "index z = map fst (frame z)"

text \<open>The result object of the external calculation, as far as \<open>V\<close> reads it.\<close>

record calc_result =
  scfenergies :: "real list"
  grads :: "array2 list"

text \<open>
  The closure \<^verbatim>\<open>V\<close> of \<^verbatim>\<open>_get_V_function\<close>. The external collaborators are
  parameters: \<^verbatim>\<open>calculate\<close> (the electronic-structure run), \<^verbatim>\<open>convertor\<close> (the unit
  table) and \<^verbatim>\<open>get_grad_cartesian\<close> (the geometry library's Jacobian).
\<close>

definition V ::
  "(zmat \<Rightarrow> py_error + calc_result) \<Rightarrow> (real \<Rightarrow> string \<Rightarrow> string \<Rightarrow> real)
   \<Rightarrow> (zmat \<Rightarrow> py_error + array4) \<Rightarrow> zmat \<Rightarrow> py_error + real \<times> array2 \<times> array2" where
  "V calculate convertor get_grad_cartesian zmolecule =
     (case calculate zmolecule of
        Inl e \<Rightarrow> Inl e
      | Inr result \<Rightarrow>
          (case scfenergies result of
             [] \<Rightarrow> Inl IndexError
           | e0 # _ \<Rightarrow>
               (case grads result of
                  [] \<Rightarrow> Inl IndexError
                | g0 # _ \<Rightarrow>
                    (let energy = convertor e0 ''eV'' ''hartree'';
                         grad_energy_X = array_div g0 (convertor 1 ''bohr'' ''Angstrom'')
                     in case get_grad_cartesian zmolecule of
                          Inl e \<Rightarrow> Inl e
                        | Inr grad_X \<Rightarrow>
                            (case contract_gradient grad_energy_X grad_X of
                               Inl e \<Rightarrow> Inl e
                             | Inr grad_energy_C \<Rightarrow>
                                 Inr (energy, grad_energy_X, gauge_fix grad_energy_C))))))"

section \<open>Writing coordinates into a structure\<close>

text \<open>
  Structures are objects: a heap holds them, a reference is an index into it, and
  \<^verbatim>\<open>.copy()\<close> allocates a new object at the end of the heap. Every reference a Python
  program holds is valid, that is below the length of the heap.
\<close>

type_synonym addr = nat

type_synonym heap = "zmat list"

definition zm_copy :: "heap \<Rightarrow> addr \<Rightarrow> addr \<times> heap" where
  "zm_copy h a = (length h, h @ [h ! a])"

definition rad2deg :: "real \<Rightarrow> real" where
  "rad2deg x = x * 180 / pi"

text \<open>
  \<^verbatim>\<open>C_rad.copy().reshape((3, len(C_rad) // 3), order='F').T\<close>: in Fortran order the
  first index runs fastest, so entry \<open>(r, c)\<close> of the reshaped array is \<open>C_rad[r + 3c]\<close>,
  and the transpose has it at \<open>(c, r)\<close>. A length that is no multiple of 3 cannot be
  reshaped (\<^verbatim>\<open>ValueError\<close>).
\<close>

definition reshape_F_T :: "real list \<Rightarrow> py_error + array2" where
  "reshape_F_T v =
     (if 3 * (length v div 3) \<noteq> length v then Inl ValueError
      else Inr \<lparr>rows = length v div 3, cols = 3, at2 = \<lambda>i j. v ! (j + 3 * i)\<rparr>)"

text \<open>\<^verbatim>\<open>C_deg[:, [1, 2]] = np.rad2deg(C_deg[:, [1, 2]])\<close>\<close>

definition deg_columns :: "array2 \<Rightarrow> array2" where
  "deg_columns C =
     C\<lparr>at2 := \<lambda>i j. if j = 1 \<or> j = 2 then rad2deg (at2 C i j) else at2 C i j\<rparr>"

text \<open>
  The plain label-based assignment of an array to the columns \<^verbatim>\<open>bond\<close>, \<^verbatim>\<open>angle\<close> and
  \<^verbatim>\<open>dihedral\<close> of a frame (the geometry library's \<^verbatim>\<open>unsafe_loc\<close>), the first step of
  its \<^verbatim>\<open>safe_loc\<close> setter below: row \<open>t\<close> of the array goes to the atom with the
  \<open>t\<close>-th label. A label that the frame does not have is a \<^verbatim>\<open>KeyError\<close>, an array of
  another shape than (number of labels, 3) a \<^verbatim>\<open>ValueError\<close>.
\<close>

definition set_row :: "nat \<Rightarrow> (zrow \<Rightarrow> zrow) \<Rightarrow> (nat \<times> zrow) list \<Rightarrow> (nat \<times> zrow) list" where
  "set_row l upd fr = map (\<lambda>(k, old). if k = l then (k, upd old) else (k, old)) fr"

definition loc_assign ::
  "nat list \<Rightarrow> array2 \<Rightarrow> (nat \<times> zrow) list \<Rightarrow> py_error + (nat \<times> zrow) list" where
  "loc_assign labels C fr =
     (if \<not> list_all (\<lambda>l. l \<in> set (map fst fr)) labels then Inl KeyError
      else if length labels \<noteq> rows C \<or> cols C \<noteq> 3 then Inl ValueError
      else Inr (fold (\<lambda>(t, l). set_row l
                  (\<lambda>old. old\<lparr>bond := at2 C t 0, angle := at2 C t 1, dihedral := at2 C t 2\<rparr>))
                (enumerate 0 labels) fr))"

text \<open>
  \<^verbatim>\<open>new_zm.safe_loc[labels, ['bond', 'angle', 'dihedral']] = C_deg\<close>, the setter of the
  geometry library, which is not part of this repository. It stores the values with
  the plain assignment, then builds the Cartesian coordinates of the structure; when
  the three references of an atom have become collinear, or coincide, it repairs the
  structure by inserting dummy atoms, or raises. Whether the structure with the new
  values passes (\<open>valid_geometry\<close>) and what the library does when it does not
  (\<open>manipulate_dummies\<close>) are parameters: nothing is assumed about them.
\<close>

definition safe_loc_set ::
  "(zmat \<Rightarrow> bool) \<Rightarrow> (zmat \<Rightarrow> py_error + zmat) \<Rightarrow> nat list \<Rightarrow> array2 \<Rightarrow> zmat
   \<Rightarrow> py_error + zmat" where
  "safe_loc_set valid_geometry manipulate_dummies labels C z =
     (case loc_assign labels C (frame z) of
        Inl e \<Rightarrow> Inl e
      | Inr fr \<Rightarrow>
          if valid_geometry (z\<lparr>frame := fr\<rparr>) then Inr (z\<lparr>frame := fr\<rparr>)
          else manipulate_dummies (z\<lparr>frame := fr\<rparr>))"

text \<open>
  The closure \<^verbatim>\<open>get_new_zm(p, previous_zmat)\<close> of \<^verbatim>\<open>_get_new_zm_f_generator(zmolecule)\<close>.
  \<open>zmolecule\<close> is the reference captured by the closure. \<open>previous_zmat\<close> is \<open>None\<close>
  when the caller leaves the second positional argument out: Python raises
  \<^verbatim>\<open>TypeError\<close> before the body runs. The name \<^verbatim>\<open>C_rad\<close> is neither a parameter nor
  assigned in the module, so it is looked up among the module's globals when the first
  line runs: the lookup is the parameter \<open>C_rad\<close>, \<open>None\<close> when the name is unbound
  (\<^verbatim>\<open>NameError\<close>). The argument \<open>p\<close> is not used by the body.
\<close>

definition get_new_zm ::
  "(zmat \<Rightarrow> bool) \<Rightarrow> (zmat \<Rightarrow> py_error + zmat) \<Rightarrow> real list option \<Rightarrow> addr \<Rightarrow> 'p
   \<Rightarrow> addr option \<Rightarrow> heap \<Rightarrow> py_error + addr \<times> heap" where
  "get_new_zm valid_geometry manipulate_dummies C_rad zmolecule p previous_zmat h =
     (case previous_zmat of
        None \<Rightarrow> Inl TypeError
      | Some prev \<Rightarrow>
          (case C_rad of
             None \<Rightarrow> Inl NameError
           | Some c \<Rightarrow>
               (case reshape_F_T c of
                  Inl e \<Rightarrow> Inl e
                | Inr C0 \<Rightarrow>
                    (let C_deg = deg_columns C0;
                         (new_zm, h1) = zm_copy h prev
                     in case safe_loc_set valid_geometry manipulate_dummies
                               (index (h1 ! zmolecule)) C_deg (h1 ! new_zm) of
                          Inl e \<Rightarrow> Inl e
                        | Inr z \<Rightarrow> Inr (new_zm, h1[new_zm := z])))))"

section \<open>The optimisation loop\<close>

text \<open>
  The variables of \<^verbatim>\<open>optimise\<close> that its loop reads and writes (lines 53 to 64), with
  the heap. The deque \<^verbatim>\<open>grads_energy_C\<close> is a list, oldest entry first.
\<close>

record opt_state =
  heap_of :: heap
  energies_of :: "real list"
  structures_of :: "addr list"
  grads_energy_C_of :: "array2 list"
  grad_energy_X_of :: "array2 option"
  new_zm_of :: addr

text \<open>
  \<^verbatim>\<open>energies, structures, grads_energy_C = [], [], deque([])\<close>,
  \<^verbatim>\<open>grad_energy_X = None\<close>, \<^verbatim>\<open>new_zm = zmolecule.copy()\<close>.
\<close>

definition optimise_init :: "heap \<Rightarrow> addr \<Rightarrow> opt_state" where
  "optimise_init h zmolecule =
     (let (a, h1) = zm_copy h zmolecule
      in \<lparr>heap_of = h1, energies_of = [], structures_of = [], grads_energy_C_of = [],
          grad_energy_X_of = None, new_zm_of = a\<rparr>)"

text \<open>\<^verbatim>\<open>deque.popleft()\<close> raises \<^verbatim>\<open>IndexError\<close> on an empty deque.\<close>

definition popleft :: "'a list \<Rightarrow> py_error + 'a \<times> 'a list" where
  "popleft q = (case q of [] \<Rightarrow> Inl IndexError | x # xs \<Rightarrow> Inr (x, xs))"

text \<open>
  The body of the \<^verbatim>\<open>while\<close> loop, for any step function \<open>get_new_zm_f\<close> and any
  evaluation \<open>Vf\<close> bound to the local names \<^verbatim>\<open>get_new_zm\<close> and \<^verbatim>\<open>V\<close>.
\<close>

definition loop_body ::
  "(array2 list \<Rightarrow> heap \<Rightarrow> py_error + addr \<times> heap)
   \<Rightarrow> (zmat \<Rightarrow> py_error + real \<times> array2 \<times> array2) \<Rightarrow> opt_state \<Rightarrow> py_error + opt_state" where
  "loop_body get_new_zm_f Vf st =
     (case get_new_zm_f (grads_energy_C_of st) (heap_of st) of
        Inl e \<Rightarrow> Inl e
      | Inr (nz, h1) \<Rightarrow>
          (case Vf (h1 ! nz) of
             Inl e \<Rightarrow> Inl e
           | Inr (energy, gX, gC) \<Rightarrow>
               (let h2 = h1[nz := (h1 ! nz)\<lparr>energy_meta := Some energy\<rparr>]
                in case popleft (grads_energy_C_of st) of
                     Inl e \<Rightarrow> Inl e
                   | Inr (old, q) \<Rightarrow>
                       Inr \<lparr>heap_of = h2, energies_of = energies_of st @ [energy],
                            structures_of = structures_of st @ [nz],
                            grads_energy_C_of = q @ [gC],
                            grad_energy_X_of = Some gX, new_zm_of = nz\<rparr>)))"

text \<open>
  \<^verbatim>\<open>while not _is_converged(energies, grad_energy_X): ...\<close>. The loop has no iteration
  bound, so the result is \<open>None\<close> when it runs forever.
\<close>

partial_function (option) optimise_loop ::
  "(array2 list \<Rightarrow> heap \<Rightarrow> py_error + addr \<times> heap)
   \<Rightarrow> (zmat \<Rightarrow> py_error + real \<times> array2 \<times> array2) \<Rightarrow> opt_state
   \<Rightarrow> (py_error + opt_state) option" where
  "optimise_loop get_new_zm_f Vf st =
     (case is_converged_default (energies_of st) (grad_energy_X_of st) of
        Inl e \<Rightarrow> Some (Inl e)
      | Inr conv \<Rightarrow>
          if conv then Some (Inr st)
          else (case loop_body get_new_zm_f Vf st of
                  Inl e \<Rightarrow> Some (Inl e)
                | Inr st' \<Rightarrow> optimise_loop get_new_zm_f Vf st'))"

text \<open>
  Lines 53 to 64 of \<^verbatim>\<open>optimise\<close>: the closure of \<^verbatim>\<open>_get_new_zm_f_generator\<close> is called
  with the deque alone, \<^verbatim>\<open>get_new_zm(grads_energy_C)\<close>.
\<close>

definition optimise_run ::
  "(zmat \<Rightarrow> bool) \<Rightarrow> (zmat \<Rightarrow> py_error + zmat) \<Rightarrow> real list option
   \<Rightarrow> (zmat \<Rightarrow> py_error + real \<times> array2 \<times> array2) \<Rightarrow> heap \<Rightarrow> addr
   \<Rightarrow> (py_error + opt_state) option" where
  "optimise_run valid_geometry manipulate_dummies C_rad Vf h zmolecule =
     optimise_loop (\<lambda>p. get_new_zm valid_geometry manipulate_dummies C_rad zmolecule p None) Vf
       (optimise_init h zmolecule)"

section \<open>Output files\<close>
























text \<open>Inputs used in the examples below.\<close>

definition ex_grad_zero :: array2 where
  "ex_grad_zero = \<lparr>rows = 1, cols = 3, at2 = \<lambda>i j. 0\<rparr>"

definition ex_grad_one :: array2 where
  "ex_grad_one = \<lparr>rows = 1, cols = 1, at2 = \<lambda>i j. - 1\<rparr>"

definition ex_zm :: zmat where
  "ex_zm = \<lparr>frame = [(0, \<lparr>bond = 1, angle = 2, dihedral = 3\<rparr>),
                       (1, \<lparr>bond = 4, angle = 5, dihedral = 6\<rparr>),
                       (2, \<lparr>bond = 7, angle = 8, dihedral = 9\<rparr>),
                       (3, \<lparr>bond = 10, angle = 11, dihedral = 12\<rparr>)],
            energy_meta = None\<rparr>"

definition ex_forces :: array2 where
  "ex_forces = \<lparr>rows = 4, cols = 3, at2 = \<lambda>a c. 1\<rparr>"

definition ex_calculate :: "zmat \<Rightarrow> py_error + calc_result" where
  "ex_calculate z = Inr \<lparr>scfenergies = [2], grads = [ex_forces]\<rparr>"

definition ex_convertor :: "real \<Rightarrow> string \<Rightarrow> string \<Rightarrow> real" where
  "ex_convertor x from to = x"

definition ex_jacobian :: "zmat \<Rightarrow> py_error + array4" where
  "ex_jacobian z = Inr \<lparr>d0 = 3, d1 = length (index z), d2 = length (index z), d3 = 3,
                        at4 = \<lambda>c a j k. 1\<rparr>"

definition ex_C :: array2 where
  "ex_C = \<lparr>rows = 4, cols = 3, at2 = \<lambda>j k. 12\<rparr>"





section \<open>Convergence test: properties\<close>

lemma entries2_array_abs:
  "entries2 (array_abs g) = map abs (entries2 g)"
  by (simp add: entries2_def array_abs_def map_concat comp_def)

lemma is_converged_few:
  "length energies < 2 \<Longrightarrow> is_converged energies g etol gtol = Inr False"
  by (cases energies; cases "tl energies") (auto simp: is_converged_def)

lemma is_converged_many:
  assumes "2 \<le> length energies" "entries2 g \<noteq> []"
  shows "is_converged energies (Some g) etol gtol =
           Inr (\<bar>energies ! (length energies - 1) - energies ! (length energies - 2)\<bar> < etol
                \<and> Max (set (map abs (entries2 g))) < gtol)"
  using assms
  by (auto simp: is_converged_def array_max_def entries2_array_abs)

text \<open>
  C1. With fewer than two energies the checker returns false whatever the gradient is.
  With at least two energies it returns true exactly when the absolute difference of the
  last two energies is strictly below \<open>etol\<close> and the largest absolute gradient entry is
  strictly below \<open>gtol\<close> (the gradient being an array with at least one entry, so that
  its maximum exists); on such a gradient the returned value is that conjunction. A
  difference equal to \<open>etol\<close>, or a maximum equal to \<open>gtol\<close>, is not converged. The
  defaults are \<open>etol = 1e-8\<close> and \<open>gtol = 1e-5\<close>.
\<close>

theorem is_converged_spec:
  "(length energies < 2 \<longrightarrow> is_converged energies grad etol gtol = Inr False)
   \<and> (2 \<le> length energies \<longrightarrow>
        (is_converged energies grad etol gtol = Inr True \<longleftrightarrow>
           \<bar>energies ! (length energies - 1) - energies ! (length energies - 2)\<bar> < etol
           \<and> (\<exists>g. grad = Some g \<and> entries2 g \<noteq> []
                  \<and> Max (set (map abs (entries2 g))) < gtol)))
   \<and> (2 \<le> length energies \<and> entries2 g \<noteq> [] \<longrightarrow>
        is_converged energies (Some g) etol gtol =
          Inr (\<bar>energies ! (length energies - 1) - energies ! (length energies - 2)\<bar> < etol
               \<and> Max (set (map abs (entries2 g))) < gtol))
   \<and> (2 \<le> length energies
        \<and> \<bar>energies ! (length energies - 1) - energies ! (length energies - 2)\<bar> = etol \<longrightarrow>
        is_converged energies grad etol gtol = Inr False)
   \<and> (2 \<le> length energies \<and> entries2 g \<noteq> []
        \<and> Max (set (map abs (entries2 g))) = gtol \<longrightarrow>
        is_converged energies (Some g) etol gtol = Inr False)
   \<and> is_converged_default energies grad =
        is_converged energies grad (1 / 10 ^ 8) (1 / 10 ^ 5)"
proof (intro conjI impI)
  assume "length energies < 2"
  then show "is_converged energies grad etol gtol = Inr False"
    by (rule is_converged_few)
next
  assume two: "2 \<le> length energies"
  show "is_converged energies grad etol gtol = Inr True \<longleftrightarrow>
          \<bar>energies ! (length energies - 1) - energies ! (length energies - 2)\<bar> < etol
          \<and> (\<exists>g. grad = Some g \<and> entries2 g \<noteq> []
                 \<and> Max (set (map abs (entries2 g))) < gtol)"
  proof (cases grad)
    case None
    with two show ?thesis by (auto simp: is_converged_def)
  next
    case (Some g)
    show ?thesis
    proof (cases "entries2 g = []")
      case True
      with two Some show ?thesis
        by (auto simp: is_converged_def array_max_def entries2_array_abs)
    next
      case False
      with two Some show ?thesis by (simp add: is_converged_many)
    qed
  qed
next
  assume "2 \<le> length energies \<and> entries2 g \<noteq> []"
  then show "is_converged energies (Some g) etol gtol =
          Inr (\<bar>energies ! (length energies - 1) - energies ! (length energies - 2)\<bar> < etol
               \<and> Max (set (map abs (entries2 g))) < gtol)"
    by (simp add: is_converged_many)
next
  assume "2 \<le> length energies
        \<and> \<bar>energies ! (length energies - 1) - energies ! (length energies - 2)\<bar> = etol"
  then show "is_converged energies grad etol gtol = Inr False"
    by (auto simp: is_converged_def)
next
  assume "2 \<le> length energies \<and> entries2 g \<noteq> []
        \<and> Max (set (map abs (entries2 g))) = gtol"
  then show "is_converged energies (Some g) etol gtol = Inr False"
    by (simp add: is_converged_many)
next
  show "is_converged_default energies grad =
        is_converged energies grad (1 / 10 ^ 8) (1 / 10 ^ 5)"
    by (simp add: is_converged_default_def)
qed

lemma entries2_ex_grad_zero: "entries2 ex_grad_zero = [0, 0, 0]"
  by (simp add: entries2_def ex_grad_zero_def upt_rec)

lemma entries2_ex_grad_one: "entries2 ex_grad_one = [- 1]"
  by (simp add: entries2_def ex_grad_one_def)

theorem is_converged_spec_witness:
  "is_converged [] None (1 / 10 ^ 8) (1 / 10 ^ 5) = Inr False
   \<and> is_converged [- 1, - 1] (Some ex_grad_zero) (1 / 10 ^ 8) (1 / 10 ^ 5) = Inr True
   \<and> is_converged_default [- 1, - 1] (Some ex_grad_zero) = Inr True
   \<and> is_converged [0, 1] None 1 1 = Inr False
   \<and> is_converged [0, 0] (Some ex_grad_one) 1 1 = Inr False"
  using is_converged_spec [where energies = "[]" and grad = None
          and etol = "1 / 10 ^ 8" and gtol = "1 / 10 ^ 5"]
        is_converged_spec [where energies = "[- 1, - 1]" and grad = "Some ex_grad_zero"
          and etol = "1 / 10 ^ 8" and gtol = "1 / 10 ^ 5" and g = ex_grad_zero]
        is_converged_spec [where energies = "[0, 1]" and grad = None and etol = 1 and gtol = 1]
        is_converged_spec [where energies = "[0, 0]" and grad = None and etol = 1 and gtol = 1
          and g = ex_grad_one]
  by (simp add: entries2_ex_grad_zero entries2_ex_grad_one)

lemma optimise_init_fields:
  "energies_of (optimise_init h zmolecule) = []"
  "structures_of (optimise_init h zmolecule) = []"
  "grads_energy_C_of (optimise_init h zmolecule) = []"
  "grad_energy_X_of (optimise_init h zmolecule) = None"
  "new_zm_of (optimise_init h zmolecule) = length h"
  "heap_of (optimise_init h zmolecule) = h @ [h ! zmolecule]"
  by (simp_all add: optimise_init_def zm_copy_def)

text \<open>
  C10. With fewer than two energies the checker does not read its gradient argument:
  the result is the same for every gradient, it is defined and false when the gradient
  is \<open>None\<close>. The driver's first check, before any evaluation, is such a call: the
  energies are empty and the gradient is \<open>None\<close>, and the check returns false.
\<close>

theorem is_converged_ignores_gradient:
  "(length energies < 2 \<longrightarrow>
      is_converged energies None etol gtol = Inr False
      \<and> is_converged energies grad etol gtol = is_converged energies None etol gtol)
   \<and> energies_of (optimise_init h zmolecule) = []
   \<and> grad_energy_X_of (optimise_init h zmolecule) = None
   \<and> is_converged_default (energies_of (optimise_init h zmolecule))
        (grad_energy_X_of (optimise_init h zmolecule)) = Inr False"
  by (simp add: is_converged_few optimise_init_fields is_converged_default_def)

theorem is_converged_ignores_gradient_witness:
  "length [5 :: real] < 2
   \<and> is_converged [5] None 1 1 = Inr False
   \<and> is_converged [5] (Some ex_grad_one) 1 1 = is_converged [5] None 1 1"
  using is_converged_ignores_gradient [where energies = "[5]" and grad = "Some ex_grad_one"
          and etol = 1 and gtol = 1]
  by simp

section \<open>Step generator: properties\<close>

text \<open>
  C3. Called with a gradient history whose length is not 2, the step generator fails
  with \<^verbatim>\<open>ValueError\<close> (the error the specification calls InvalidHistoryLength) as the
  result of its first statement, whatever else is bound; in particular for the lengths
  0, 1 and 3. With a history of length 2 it does not fail with that error.
\<close>

theorem get_next_step_length:
  "(length grads_energy_C \<noteq> 2 \<longrightarrow> get_next_step next_step grads_energy_C = Inl ValueError)
   \<and> (length grads_energy_C = 2 \<longrightarrow> get_next_step next_step grads_energy_C \<noteq> Inl ValueError)
   \<and> get_next_step next_step [] = Inl ValueError
   \<and> get_next_step next_step [g1] = Inl ValueError
   \<and> get_next_step next_step [g1, g2, g3] = Inl ValueError"
  by (simp add: get_next_step_def split: option.splits)

theorem get_next_step_length_witness:
  "length [ex_grad_zero] \<noteq> 2
   \<and> get_next_step (Some (0 :: nat)) [ex_grad_zero] = Inl ValueError
   \<and> length [ex_grad_zero, ex_grad_one] = 2
   \<and> get_next_step (Some (0 :: nat)) [ex_grad_zero, ex_grad_one] \<noteq> Inl ValueError
   \<and> get_next_step (None :: nat option) [ex_grad_zero, ex_grad_one] \<noteq> Inl ValueError"
  using get_next_step_length [where grads_energy_C = "[ex_grad_zero]" and next_step = "Some (0 :: nat)"]
        get_next_step_length [where grads_energy_C = "[ex_grad_zero, ex_grad_one]"
          and next_step = "Some (0 :: nat)"]
        get_next_step_length [where grads_energy_C = "[ex_grad_zero, ex_grad_one]"
          and next_step = "None :: nat option"]
  by simp

section \<open>Coordinate transform: properties\<close>

lemma fold_zero_row_from:
  "rows (fold zero_row_from is C) = rows C
   \<and> cols (fold zero_row_from is C) = cols C
   \<and> at2 (fold zero_row_from is C) r k =
       (if r \<in> set is \<and> r \<le> k \<and> k < cols C then 0 else at2 C r k)"
  by (induction "is" arbitrary: C) (auto simp: zero_row_from_def)

lemma gauge_fix_shape: "rows (gauge_fix C) = rows C" "cols (gauge_fix C) = cols C"
  by (simp_all add: gauge_fix_def fold_zero_row_from)

lemma gauge_fix_at2:
  "at2 (gauge_fix C) r k =
     (if r < 3 \<and> r < rows C \<and> r \<le> k \<and> k < cols C then 0 else at2 C r k)"
  by (simp add: gauge_fix_def fold_zero_row_from)

lemma V_Inr_D:
  assumes "V calculate convertor get_grad_cartesian zmolecule = Inr (energy, gX, gC)"
  shows "\<exists>result e0 es g0 gs grad_X C.
           calculate zmolecule = Inr result \<and> scfenergies result = e0 # es
           \<and> grads result = g0 # gs
           \<and> get_grad_cartesian zmolecule = Inr grad_X
           \<and> energy = convertor e0 ''eV'' ''hartree''
           \<and> gX = array_div g0 (convertor 1 ''bohr'' ''Angstrom'')
           \<and> contract_gradient gX grad_X = Inr C \<and> gC = gauge_fix C"
  using assms
  by (auto simp: V_def Let_def split: sum.splits list.splits)

lemma contract_gradient_shape:
  "contract_gradient gX J = Inr C \<Longrightarrow> rows C = d2 J \<and> cols C = d3 J"
  by (auto simp: contract_gradient_def Let_def split: sum.splits)

lemma length_entries2: "length (entries2 A) = rows A * cols A"
proof -
  have "length (concat (map (\<lambda>i. map (f i) [0..<c]) [0..<r])) = r * c" for r c :: nat and f :: "nat \<Rightarrow> nat \<Rightarrow> real"
    by (induction r) simp_all
  then show ?thesis by (simp add: entries2_def)
qed

lemma index_ex_zm: "index ex_zm = [0, 1, 2, 3]"
  by (simp add: index_def ex_zm_def)

lemma ex_jacobian_ex_zm:
  "ex_jacobian ex_zm = Inr \<lparr>d0 = 3, d1 = 4, d2 = 4, d3 = 3, at4 = \<lambda>c a j k. 1\<rparr>"
  by (simp add: ex_jacobian_def index_ex_zm)

lemma ex_contract:
  "contract_gradient (array_div ex_forces 1)
     \<lparr>d0 = 3, d1 = 4, d2 = 4, d3 = 3, at4 = \<lambda>c a j k. 1\<rparr> = Inr ex_C"
  by (simp add: contract_gradient_def transpose2_def array_div_def broadcast_dim_def
      bidx_def upt_rec ex_C_def ex_forces_def)

lemma ex_V:
  "V ex_calculate ex_convertor ex_jacobian ex_zm
     = Inr (2, array_div ex_forces 1, gauge_fix ex_C)"
  by (simp add: V_def ex_calculate_def ex_convertor_def ex_jacobian_ex_zm ex_contract)

lemma length_gauge_positions_ex: "length (gauge_positions 4 3) = 6"
  by (simp add: gauge_positions_def upt_rec)

text \<open>
  C4. For every Cartesian gradient and every structure, the internal gradient that the
  evaluation returns is zero at the positions \<open>[i, i:]\<close> of every atom row \<open>i < 3\<close>
  that the array has: all columns of row 0, the columns from 1 of row 1, the columns
  from 2 of row 2. The same holds for the zeroing loop on any array.
\<close>

theorem V_gauge_zero:
  "(\<forall>i k. i < 3 \<and> i < rows C \<and> i \<le> k \<and> k < cols C \<longrightarrow> at2 (gauge_fix C) i k = 0)
   \<and> (V calculate convertor get_grad_cartesian zmolecule = Inr (energy, gX, gC) \<longrightarrow>
        (\<forall>i k. i < 3 \<and> i < rows gC \<and> i \<le> k \<and> k < cols gC \<longrightarrow> at2 gC i k = 0))"
proof (intro conjI impI allI)
  fix i k
  assume "i < 3 \<and> i < rows C \<and> i \<le> k \<and> k < cols C"
  then show "at2 (gauge_fix C) i k = 0" by (simp add: gauge_fix_at2)
next
  fix i k
  assume v: "V calculate convertor get_grad_cartesian zmolecule = Inr (energy, gX, gC)"
    and ik: "i < 3 \<and> i < rows gC \<and> i \<le> k \<and> k < cols gC"
  from V_Inr_D [OF v] obtain C0 where "gC = gauge_fix C0" by blast
  with ik show "at2 gC i k = 0" by (simp add: gauge_fix_at2 gauge_fix_shape)
qed

theorem V_gauge_zero_witness:
  "\<exists>energy gX gC. V ex_calculate ex_convertor ex_jacobian ex_zm = Inr (energy, gX, gC)
     \<and> rows gC = 4 \<and> cols gC = 3
     \<and> at2 gC 0 0 = 0 \<and> at2 gC 0 1 = 0 \<and> at2 gC 0 2 = 0
     \<and> at2 gC 1 0 = 12 \<and> at2 gC 1 1 = 0 \<and> at2 gC 1 2 = 0
     \<and> at2 gC 2 0 = 12 \<and> at2 gC 2 1 = 12 \<and> at2 gC 2 2 = 0
     \<and> at2 gC 3 0 = 12 \<and> at2 gC 3 1 = 12 \<and> at2 gC 3 2 = 12"
proof -
  define C where "C = ex_C"
  define gX where "gX = array_div ex_forces 1"
  have v: "V ex_calculate ex_convertor ex_jacobian ex_zm = Inr (2, gX, gauge_fix C)"
    unfolding C_def gX_def by (rule ex_V)
  have c: "rows C = 4" "cols C = 3" "\<forall>j k. at2 C j k = 12"
    by (simp_all add: C_def ex_C_def)
  have z: "\<forall>i k. i < 3 \<and> i < rows (gauge_fix C) \<and> i \<le> k \<and> k < cols (gauge_fix C) \<longrightarrow> at2 (gauge_fix C) i k = 0"
    using V_gauge_zero [where calculate = ex_calculate and convertor = ex_convertor
        and get_grad_cartesian = ex_jacobian and zmolecule = ex_zm and energy = 2
        and gX = gX and gC = "gauge_fix C"] v by blast
  have "at2 (gauge_fix C) 0 0 = 0" "at2 (gauge_fix C) 0 1 = 0" "at2 (gauge_fix C) 0 2 = 0"
       "at2 (gauge_fix C) 1 1 = 0" "at2 (gauge_fix C) 1 2 = 0" "at2 (gauge_fix C) 2 2 = 0"
    using z c by (simp_all add: gauge_fix_shape)
  moreover have "at2 (gauge_fix C) 1 0 = 12" "at2 (gauge_fix C) 2 0 = 12" "at2 (gauge_fix C) 2 1 = 12"
       "at2 (gauge_fix C) 3 0 = 12" "at2 (gauge_fix C) 3 1 = 12" "at2 (gauge_fix C) 3 2 = 12"
    using c by (simp_all add: gauge_fix_at2)
  ultimately show ?thesis using v c by (simp add: gauge_fix_shape)
qed

text \<open>
  C8, the claim as stated fails. For a structure of four atoms the returned internal
  gradient has 12 entries, while 3 times the atom count minus the 6 gauge-fixed
  positions is 6.
\<close>

theorem V_length_counterexample:
  "V ex_calculate ex_convertor ex_jacobian ex_zm
     = Inr (2, array_div ex_forces 1, gauge_fix ex_C)
   \<and> length (index ex_zm) = 4
   \<and> length (gauge_positions (rows (gauge_fix ex_C)) (cols (gauge_fix ex_C))) = 6
   \<and> length (entries2 (gauge_fix ex_C)) = 12
   \<and> length (entries2 (gauge_fix ex_C))
       \<noteq> 3 * length (index ex_zm)
           - length (gauge_positions (rows (gauge_fix ex_C)) (cols (gauge_fix ex_C)))"
proof -
  have "rows (gauge_fix ex_C) = 4" "cols (gauge_fix ex_C) = 3"
    by (simp_all add: gauge_fix_shape ex_C_def)
  moreover have "length (index ex_zm) = 4" by (simp add: index_ex_zm)
  ultimately show ?thesis
    using ex_V by (simp add: length_entries2 length_gauge_positions_ex)
qed

text \<open>
  C8, amended. When the Jacobian of the geometry library has one block of three
  components per atom, the returned internal gradient is an array of (atom count) rows
  and 3 columns, hence of 3 times the atom count entries: the gauge-fixed positions
  are inside the array and hold zero, they are not removed.
\<close>

theorem V_length:
  assumes "V calculate convertor get_grad_cartesian zmolecule = Inr (energy, gX, gC)"
    and "get_grad_cartesian zmolecule = Inr grad_X"
    and "d2 grad_X = length (index zmolecule)" and "d3 grad_X = 3"
  shows "rows gC = length (index zmolecule) \<and> cols gC = 3
         \<and> length (entries2 gC) = 3 * length (index zmolecule)
         \<and> (\<forall>p \<in> set (gauge_positions (rows gC) (cols gC)).
               fst p < rows gC \<and> snd p < cols gC \<and> at2 gC (fst p) (snd p) = 0)"
proof -
  from V_Inr_D [OF assms(1)] assms(2) obtain C where
    c: "contract_gradient gX grad_X = Inr C" and g: "gC = gauge_fix C" by auto
  from contract_gradient_shape [OF c] assms(3,4) g
  have sh: "rows gC = length (index zmolecule)" "cols gC = 3"
    by (simp_all add: gauge_fix_shape)
  have "fst p < rows gC \<and> snd p < cols gC \<and> at2 gC (fst p) (snd p) = 0"
    if "p \<in> set (gauge_positions (rows gC) (cols gC))" for p
    using that g by (auto simp: gauge_positions_def gauge_fix_at2 gauge_fix_shape)
  with sh show ?thesis by (simp add: length_entries2)
qed

theorem V_length_witness:
  "\<exists>energy gX gC. V ex_calculate ex_convertor ex_jacobian ex_zm = Inr (energy, gX, gC)
     \<and> rows gC = 4 \<and> cols gC = 3 \<and> length (entries2 gC) = 12
     \<and> (\<forall>p \<in> set (gauge_positions (rows gC) (cols gC)).
               fst p < rows gC \<and> snd p < cols gC \<and> at2 gC (fst p) (snd p) = 0)"
proof -
  define gX where "gX = array_div ex_forces 1"
  have v: "V ex_calculate ex_convertor ex_jacobian ex_zm = Inr (2, gX, gauge_fix ex_C)"
    unfolding gX_def by (rule ex_V)
  have n: "length (index ex_zm) = 4" by (simp add: index_ex_zm)
  have dd: "d2 \<lparr>d0 = 3, d1 = 4, d2 = 4, d3 = 3, at4 = \<lambda>c a j k. 1 :: real\<rparr> = length (index ex_zm)"
    "d3 \<lparr>d0 = 3, d1 = 4, d2 = 4, d3 = 3, at4 = \<lambda>c a j k. 1 :: real\<rparr> = 3"
    by (simp_all add: n)
  note r = V_length [OF v ex_jacobian_ex_zm dd]
  have "rows (gauge_fix ex_C) = 4" "length (entries2 (gauge_fix ex_C)) = 12"
    by (simp_all add: length_entries2 gauge_fix_shape ex_C_def)
  with r v show ?thesis by blast
qed

section \<open>Writing coordinates into a structure: properties\<close>






text \<open>
  In the module as it stands nothing binds \<^verbatim>\<open>C_rad\<close> or \<^verbatim>\<open>next_step\<close>: a call that
  reaches the lookup ends with \<^verbatim>\<open>NameError\<close>.
\<close>

lemma get_new_zm_unbound:
  "get_new_zm valid_geometry manipulate_dummies None zmolecule p (Some prev) h = Inl NameError"
  by (simp add: get_new_zm_def)

lemma get_next_step_unbound:
  "get_next_step None [g1, g2] = Inl NameError"
  by (simp add: get_next_step_def)











section \<open>The optimisation loop: properties\<close>

lemma loop_body_history_length:
  assumes "loop_body get_new_zm_f Vf st = Inr st'"
  shows "length (grads_energy_C_of st') = length (grads_energy_C_of st)
         \<and> grads_energy_C_of st \<noteq> []
         \<and> butlast (grads_energy_C_of st') = tl (grads_energy_C_of st)"
  using assms
  by (auto simp: loop_body_def popleft_def Let_def split: sum.splits prod.splits list.splits)

lemma loop_body_init:
  "\<exists>e. loop_body get_new_zm_f Vf (optimise_init h zmolecule) = Inl e"
proof (cases "loop_body get_new_zm_f Vf (optimise_init h zmolecule)")
  case (Inl e)
  then show ?thesis by blast
next
  case (Inr st')
  from loop_body_history_length [OF Inr] show ?thesis
    by (simp add: optimise_init_fields)
qed

text \<open>
  C2, evaluated on the code. The driver creates the gradient history empty, not seeded
  with two entries. For every starting structure the first pass through the loop body
  therefore sees a history of length 0, and it cannot complete: whatever step function
  and evaluation are used, it ends in an error (at the latest \<^verbatim>\<open>popleft\<close> on the
  empty deque), and so does the loop. With the call as written, the step function is
  called without its second argument and the run ends with \<^verbatim>\<open>TypeError\<close>.
\<close>

theorem optimise_first_pass_history:
  "grads_energy_C_of (optimise_init h zmolecule) = []
   \<and> length (grads_energy_C_of (optimise_init h zmolecule)) \<noteq> 2
   \<and> (\<exists>e. loop_body get_new_zm_f Vf (optimise_init h zmolecule) = Inl e)
   \<and> (\<exists>e. optimise_loop get_new_zm_f Vf (optimise_init h zmolecule) = Some (Inl e))
   \<and> optimise_run valid_geometry manipulate_dummies C_rad Vf h zmolecule = Some (Inl TypeError)"
proof -
  obtain e where e: "loop_body get_new_zm_f Vf (optimise_init h zmolecule) = Inl e"
    using loop_body_init by blast
  have c: "is_converged_default (energies_of (optimise_init h zmolecule))
             (grad_energy_X_of (optimise_init h zmolecule)) = Inr False"
    by (simp add: optimise_init_fields is_converged_default_def is_converged_few)
  have l: "optimise_loop get_new_zm_f Vf (optimise_init h zmolecule) = Some (Inl e)"
    by (subst optimise_loop.simps) (simp add: c e)
  have b: "loop_body (\<lambda>p. get_new_zm valid_geometry manipulate_dummies C_rad zmolecule p None) Vf
             (optimise_init h zmolecule) = Inl TypeError"
    by (simp add: loop_body_def get_new_zm_def)
  have r: "optimise_run valid_geometry manipulate_dummies C_rad Vf h zmolecule
             = Some (Inl TypeError)"
    unfolding optimise_run_def by (subst optimise_loop.simps) (simp add: c b)
  show ?thesis using e l r by (auto simp: optimise_init_fields)
qed

section \<open>Output files: properties\<close>


























end
